theory Spec2Isabelle
  imports
    Main
    "HOL-Library.Char_ord"
    "HOL-Library.List_Lexorder"
    "HOL-Library.Sublist"
begin

section \<open>Data model (lib/types.ts)\<close>

text \<open>
  JavaScript strings are modelled as \<^typ>\<open>string\<close>, one \<^typ>\<open>char\<close> per code unit in
  the range U+0000 .. U+00FF. Prices are JavaScript numbers holding integers and are
  modelled as \<^typ>\<open>int\<close>. Field names that clash with a constant of HOL or with a
  field of another record carry a suffix.
\<close>

record PriceRange =
  min_f :: int
  max_f :: int

record Artist =
  id_f :: string
  name :: string
  categories :: "string list"
  location :: string
  priceRange :: PriceRange
  bio :: string
  imageUrl :: string
  languages :: "string list"

text \<open>The browser's \<open>File\<close> objects are opaque to this code.\<close>

typedecl File

record ArtistFormData =
  name_fd :: string
  bio_fd :: string
  categories_fd :: "string list"
  languages_fd :: "string list"
  feeRange :: string
  location_fd :: string
  profileImage :: "File option"

subsection \<open>transformFormDataToArtist\<close>

definition parseFeeRange :: "string \<Rightarrow> PriceRange" where
  "parseFeeRange fr =
     (if fr = ''0-500'' then \<lparr>min_f = 0, max_f = 500\<rparr>
      else if fr = ''500-1000'' then \<lparr>min_f = 500, max_f = 1000\<rparr>
      else if fr = ''1000-2500'' then \<lparr>min_f = 1000, max_f = 2500\<rparr>
      else if fr = ''2500-5000'' then \<lparr>min_f = 2500, max_f = 5000\<rparr>
      else if fr = ''5000+'' then \<lparr>min_f = 5000, max_f = 10000\<rparr>
      else \<lparr>min_f = 0, max_f = 1000\<rparr>)"

text \<open>Decimal rendering of a number in a template literal.\<close>

fun digits :: "nat \<Rightarrow> string" where
  "digits n =
     (if n < 10 then [char_of (48 + n)]
      else digits (n div 10) @ [char_of (48 + n mod 10)])"

declare digits.simps [simp del]

text \<open>
  \<open>Date.now()\<close> and \<open>URL.createObjectURL\<close> are services of the browser: the clock
  reading \<open>now\<close> and the function \<open>createObjectURL\<close> are parameters of the model.
\<close>

definition transformFormDataToArtist ::
  "nat \<Rightarrow> (File \<Rightarrow> string) \<Rightarrow> ArtistFormData \<Rightarrow> Artist" where
  "transformFormDataToArtist now createObjectURL formData =
     \<lparr>id_f = ''temp-'' @ digits now,
      name = name_fd formData,
      categories = categories_fd formData,
      location = location_fd formData,
      priceRange = parseFeeRange (feeRange formData),
      bio = bio_fd formData,
      imageUrl = (case profileImage formData of
                    Some file \<Rightarrow> createObjectURL file
                  | None \<Rightarrow> ''https://placehold.co/400x400.png''),
      languages = languages_fd formData\<rparr>"

section \<open>JavaScript strings\<close>

text \<open>
  \<open>\s\<close> of a regular expression and \<open>String.prototype.trim\<close> use the same set of
  white space: TAB, LF, VT, FF, CR, SPACE and NO-BREAK SPACE below U+0100. The dot of
  a regular expression matches every code unit but the line terminators LF and CR.
\<close>

definition is_space :: "char \<Rightarrow> bool" where
  "is_space c = (of_char c \<in> {9, 10, 11, 12, 13, 32, 160 :: nat})"

definition is_line_terminator :: "char \<Rightarrow> bool" where
  "is_line_terminator c = (of_char c \<in> {10, 13 :: nat})"

definition trim :: "string \<Rightarrow> string" where
  "trim s = rev (dropWhile is_space (rev (dropWhile is_space s)))"

definition lower_char :: "char \<Rightarrow> char" where
  "lower_char c =
     (let n = of_char c :: nat in
      if (65 \<le> n \<and> n \<le> 90) \<or> (192 \<le> n \<and> n \<le> 222 \<and> n \<noteq> 215)
      then char_of (n + 32) else c)"

definition toLowerCase :: "string \<Rightarrow> string" where
  "toLowerCase s = map lower_char s"

definition startsWith :: "string \<Rightarrow> string \<Rightarrow> bool" where
  "startsWith s pat = (take (length pat) s = pat)"

text \<open>\<open>s.includes(pat)\<close>: does \<open>pat\<close> start at some position of \<open>s\<close>?\<close>

fun includes_str :: "string \<Rightarrow> string \<Rightarrow> bool" where
  "includes_str [] pat = (pat = [])"
| "includes_str (c # cs) pat = (startsWith (c # cs) pat \<or> includes_str cs pat)"

text \<open>\<open>s.split('\n')\<close>: the pieces between line feeds, at least one piece.\<close>

fun split_lines :: "string \<Rightarrow> string list" where
  "split_lines [] = [[]]"
| "split_lines (c # cs) =
     (if c = CHR 0x0A then [] # split_lines cs
      else (case split_lines cs of
              l # ls \<Rightarrow> (c # l) # ls
            | [] \<Rightarrow> [[c]]))"

section \<open>The query resolver (lib/graphql.ts)\<close>

subsection \<open>parseQuery\<close>

text \<open>
  \<open>query.match(/\{([^}]+)\}/)\<close>: the leftmost position holding an opening brace that is
  followed by at least one code unit other than a closing brace and then by a closing
  brace. The class \<open>[^}]\<close> also matches opening braces and line feeds, and the greedy
  \<open>+\<close> runs to the first closing brace; where the run is empty or reaches the end of
  the text the engine moves on to the next position. The result is group 1, the run.
\<close>

fun fieldMatch :: "string \<Rightarrow> string option" where
  "fieldMatch [] = None"
| "fieldMatch (c # cs) =
     (if c = CHR ''{'' \<and> takeWhile (\<lambda>d. d \<noteq> CHR ''}'') cs \<noteq> []
         \<and> dropWhile (\<lambda>d. d \<noteq> CHR ''}'') cs \<noteq> []
      then Some (takeWhile (\<lambda>d. d \<noteq> CHR ''}'') cs)
      else fieldMatch cs)"

text \<open>
  \<open>/\s*\{.*$/\<close> matches at a position when the white space starting there is followed
  by an opening brace and no line terminator stands between that brace and the end of
  the line (\<open>$\<close> is the end of the text: the expression has no \<open>m\<close> flag).
  \<open>line.replace(/\s*\{.*$/, '')\<close> removes the leftmost match, which runs to the end.
\<close>

definition matches_subselection :: "string \<Rightarrow> bool" where
  "matches_subselection s =
     (case dropWhile is_space s of
        [] \<Rightarrow> False
      | d # ds \<Rightarrow> d = CHR ''{'' \<and> list_all (\<lambda>e. \<not> is_line_terminator e) ds)"

fun strip_subselection :: "string \<Rightarrow> string" where
  "strip_subselection [] = []"
| "strip_subselection (c # cs) =
     (if matches_subselection (c # cs) then [] else c # strip_subselection cs)"

definition parseQuery :: "string \<Rightarrow> string list" where
  "parseQuery query =
     (case fieldMatch query of
        None \<Rightarrow> []
      | Some body \<Rightarrow>
          map (\<lambda>line. trim (strip_subselection line))
            (filter (\<lambda>line. line \<noteq> [] \<and> \<not> startsWith line ''#'')
               (map trim (split_lines body))))"

subsection \<open>The predefined query documents\<close>

text \<open>A template literal is the list of its source lines joined by line feeds.\<close>

definition template :: "string list \<Rightarrow> string" where
  "template ls = concat (map (\<lambda>l. CHR 0x0A # l) ls)"

definition getAllArtists :: string where
  "getAllArtists = template
     [''    query GetAllArtists {'',
      ''      artists {'',
      ''        id'',
      ''        name'',
      ''        categories'',
      ''        location'',
      ''        priceRange {'',
      ''          min'',
      ''          max'',
      ''        }'',
      ''        bio'',
      ''        imageUrl'',
      ''        languages'',
      ''      }'',
      ''    }'',
      ''  '']"

definition getArtistById :: string where
  "getArtistById = template
     [''    query GetArtistById($id: String!) {'',
      ''      artist(id: $id) {'',
      ''        id'',
      ''        name'',
      ''        categories'',
      ''        location'',
      ''        priceRange {'',
      ''          min'',
      ''          max'',
      ''        }'',
      ''        bio'',
      ''        imageUrl'',
      ''        languages'',
      ''      }'',
      ''    }'',
      ''  '']"

definition getArtistsByCategory :: string where
  "getArtistsByCategory = template
     [''    query GetArtistsByCategory($category: String!) {'',
      ''      artistsByCategory(category: $category) {'',
      ''        id'',
      ''        name'',
      ''        categories'',
      ''        location'',
      ''        priceRange {'',
      ''          min'',
      ''          max'',
      ''        }'',
      ''        imageUrl'',
      ''      }'',
      ''    }'',
      ''  '']"

definition getArtistsByLocation :: string where
  "getArtistsByLocation = template
     [''    query GetArtistsByLocation($location: String!) {'',
      ''      artistsByLocation(location: $location) {'',
      ''        id'',
      ''        name'',
      ''        categories'',
      ''        location'',
      ''        priceRange {'',
      ''          min'',
      ''          max'',
      ''        }'',
      ''        imageUrl'',
      ''      }'',
      ''    }'',
      ''  '']"

subsection \<open>Values, objects and the field projection\<close>

text \<open>
  The values of \<open>variables\<close> (typed \<open>any\<close>) and of the properties of a record seen as
  a plain object. \<open>JBuiltin k\<close> is the value that \<open>Object.prototype\<close> holds under the
  name \<open>k\<close>: every object of this program inherits from \<open>Object.prototype\<close>.
\<close>

datatype jsval =
    JUndefined
  | JNull
  | JBool bool
  | JNum int
  | JStr string
  | JArr "jsval list"
  | JObj "(string \<times> jsval) list"
  | JBuiltin string

text \<open>An object is the list of its own properties, in the order of their creation.\<close>

type_synonym jsobj = "(string \<times> jsval) list"

definition object_prototype_keys :: "string list" where
  "object_prototype_keys =
     [''constructor'', ''__defineGetter__'', ''__defineSetter__'', ''hasOwnProperty'',
      ''__lookupGetter__'', ''__lookupSetter__'', ''isPrototypeOf'',
      ''propertyIsEnumerable'', ''toString'', ''valueOf'', ''__proto__'',
      ''toLocaleString'']"

text \<open>\<open>field in obj\<close>: an own property or an inherited one.\<close>

definition has_property :: "jsobj \<Rightarrow> string \<Rightarrow> bool" where
  "has_property obj k = (k \<in> set (map fst obj) \<or> k \<in> set object_prototype_keys)"

text \<open>\<open>obj[field]\<close>\<close>

definition get_property :: "jsobj \<Rightarrow> string \<Rightarrow> jsval" where
  "get_property obj k =
     (case map_of obj k of
        Some v \<Rightarrow> v
      | None \<Rightarrow> if k \<in> set object_prototype_keys then JBuiltin k else JUndefined)"

fun set_own :: "jsobj \<Rightarrow> string \<Rightarrow> jsval \<Rightarrow> jsobj" where
  "set_own [] k v = [(k, v)]"
| "set_own ((k', v') # ps) k v =
     (if k' = k then (k, v) # ps else (k', v') # set_own ps k v)"

text \<open>
  \<open>obj[field] = v\<close>. Under the name \<open>__proto__\<close> the assignment runs the setter
  inherited from \<open>Object.prototype\<close>, which creates no own property; the projection
  only ever passes it the prototype the object already has.
\<close>

definition set_property :: "jsobj \<Rightarrow> string \<Rightarrow> jsval \<Rightarrow> jsobj" where
  "set_property obj k v = (if k = ''__proto__'' then obj else set_own obj k v)"

text \<open>
  The loop \<open>fields.forEach(field => { if (field in artist) filtered[field] =
  artist[field] })\<close>, started on the empty object.
\<close>

definition project :: "string list \<Rightarrow> jsobj \<Rightarrow> jsobj" where
  "project field_list obj =
     fold (\<lambda>field filtered.
             if has_property obj field
             then set_property filtered field (get_property obj field)
             else filtered)
       field_list []"

definition artist_obj :: "Artist \<Rightarrow> jsobj" where
  "artist_obj a =
     [(''id'', JStr (id_f a)),
      (''name'', JStr (name a)),
      (''categories'', JArr (map JStr (categories a))),
      (''location'', JStr (location a)),
      (''priceRange'', JObj [(''min'', JNum (min_f (priceRange a))),
                             (''max'', JNum (max_f (priceRange a)))]),
      (''bio'', JStr (bio a)),
      (''imageUrl'', JStr (imageUrl a)),
      (''languages'', JArr (map JStr (languages a)))]"

subsection \<open>Exceptions\<close>

text \<open>
  What a \<open>throw\<close> can carry: an instance of \<open>Error\<close> (\<open>TypeError\<close> is a subclass)
  with its message, or any other value.
\<close>

datatype thrown = Error string | TypeError string | NonError jsval

text \<open>\<open>error instanceof Error ? error.message : 'Unknown error'\<close>\<close>

fun catch_message :: "thrown \<Rightarrow> string" where
  "catch_message (Error m) = m"
| "catch_message (TypeError m) = m"
| "catch_message (NonError v) = ''Unknown error''"

text \<open>
  \<open>args.location.toLowerCase()\<close> on a value of type \<open>any\<close>: reading a property of
  \<open>undefined\<close> or \<open>null\<close> throws a \<open>TypeError\<close>, and so does calling the method on a
  value that has none. The wording of the messages is the engine's (V8's here).
\<close>

fun toLowerCase_any :: "jsval \<Rightarrow> thrown + string" where
  "toLowerCase_any (JStr s) = Inr (toLowerCase s)"
| "toLowerCase_any JUndefined =
     Inl (TypeError ''Cannot read properties of undefined (reading 'toLowerCase')'')"
| "toLowerCase_any JNull =
     Inl (TypeError ''Cannot read properties of null (reading 'toLowerCase')'')"
| "toLowerCase_any v = Inl (TypeError ''args.location.toLowerCase is not a function'')"

text \<open>\<open>Array.prototype.filter\<close> with a callback that may throw.\<close>

fun filter_try :: "('a \<Rightarrow> thrown + bool) \<Rightarrow> 'a list \<Rightarrow> thrown + 'a list" where
  "filter_try p [] = Inr []"
| "filter_try p (x # xs) =
     (case p x of
        Inl e \<Rightarrow> Inl e
      | Inr b \<Rightarrow>
          (case filter_try p xs of
             Inl e \<Rightarrow> Inl e
           | Inr ys \<Rightarrow> Inr (if b then x # ys else ys)))"

subsection \<open>The resolvers\<close>

text \<open>\<open>args.k\<close> on the argument mapping: \<open>undefined\<close> when the key is absent.\<close>

definition arg :: "(string \<rightharpoonup> jsval) \<Rightarrow> string \<Rightarrow> jsval" where
  "arg args k = (case args k of None \<Rightarrow> JUndefined | Some v \<Rightarrow> v)"

text \<open>
  A resolver returns an array of records, or (from \<open>find\<close>) one record or
  \<open>undefined\<close>.
\<close>

datatype resolved = Many "Artist list" | One "Artist option"

text \<open>
  The record set \<open>artists\<close> is imported from \<open>lib/data.ts\<close>; it is a parameter here.
  \<open>resolvers artists key\<close> is \<open>resolvers[key]\<close>.
\<close>

definition resolvers ::
  "Artist list \<Rightarrow> string \<Rightarrow> ((string \<rightharpoonup> jsval) \<Rightarrow> thrown + resolved) option" where
  "resolvers artists key =
     (if key = ''artists'' then Some (\<lambda>args. Inr (Many artists))
      else if key = ''artist'' then
        Some (\<lambda>args. Inr (One (find (\<lambda>a. JStr (id_f a) = arg args ''id'') artists)))
      else if key = ''artistsByCategory'' then
        Some (\<lambda>args. Inr (Many
          (filter (\<lambda>a. arg args ''category'' \<in> set (map JStr (categories a))) artists)))
      else if key = ''artistsByLocation'' then
        Some (\<lambda>args.
          case filter_try
                 (\<lambda>a. case toLowerCase_any (arg args ''location'') of
                         Inl e \<Rightarrow> Inl e
                       | Inr l \<Rightarrow> Inr (includes_str (toLowerCase (location a)) l))
                 artists of
            Inl e \<Rightarrow> Inl e
          | Inr xs \<Rightarrow> Inr (Many xs))
      else None)"

subsection \<open>graphqlRequest\<close>

record GraphQLQuery =
  query :: string
  variables :: "(string \<rightharpoonup> jsval) option"

datatype payload = DataList "jsobj list" | DataObject jsobj | DataNull

record ErrorEntry =
  message :: string

record GraphQLResponse =
  data :: payload
  errors :: "ErrorEntry list option"

text \<open>The classification of the operation, on the text of the document.\<close>

definition operation :: "string \<Rightarrow> string" where
  "operation queryString =
     (if includes_str queryString ''artist('' then ''artist''
      else if includes_str queryString ''artistsByCategory'' then ''artistsByCategory''
      else if includes_str queryString ''artistsByLocation'' then ''artistsByLocation''
      else ''artists'')"

text \<open>The body of the \<open>try\<close> block: \<open>Inl\<close> is a throw, \<open>Inr\<close> the returned \<open>data\<close>.\<close>

definition graphqlRequest_try :: "Artist list \<Rightarrow> GraphQLQuery \<Rightarrow> thrown + payload" where
  "graphqlRequest_try artists q =
     (let queryString = query q;
          vars = (case variables q of None \<Rightarrow> Map.empty | Some v \<Rightarrow> v);
          field_list = parseQuery queryString
      in case resolvers artists (operation queryString) of
           None \<Rightarrow> Inl (Error (''Unknown operation: '' @ operation queryString))
         | Some resolver \<Rightarrow>
             (case resolver vars of
                Inl e \<Rightarrow> Inl e
              | Inr (Many xs) \<Rightarrow> Inr (DataList (map (\<lambda>artist. project field_list (artist_obj artist)) xs))
              | Inr (One (Some a)) \<Rightarrow> Inr (DataObject (project field_list (artist_obj a)))
              | Inr (One None) \<Rightarrow> Inr DataNull))"

text \<open>The \<open>try\<close> with its \<open>catch\<close>. The simulated delay before it cannot throw.\<close>

definition graphqlRequest :: "Artist list \<Rightarrow> GraphQLQuery \<Rightarrow> GraphQLResponse" where
  "graphqlRequest artists q =
     (case graphqlRequest_try artists q of
        Inr d \<Rightarrow> \<lparr>data = d, errors = None\<rparr>
      | Inl e \<Rightarrow> \<lparr>data = DataNull, errors = Some [\<lparr>message = catch_message e\<rparr>]\<rparr>)"

section \<open>The filter engine (hooks/use-optimized-filters.ts)\<close>

record FilterConfig =
  category :: string
  location_c :: string
  price :: "int \<times> int"

text \<open>The callback of \<open>artists.filter\<close>, with its three early returns.\<close>

definition keeps :: "FilterConfig \<Rightarrow> Artist \<Rightarrow> bool" where
  "keeps cfg artist =
     (if category cfg \<noteq> ''all'' \<and> category cfg \<notin> set (categories artist) then False
      else if location_c cfg \<noteq> []
              \<and> \<not> includes_str (toLowerCase (location artist)) (toLowerCase (location_c cfg))
      then False
      else if min_f (priceRange artist) > snd (price cfg)
              \<or> max_f (priceRange artist) < fst (price cfg)
      then False
      else True)"

definition filteredArtists :: "Artist list \<Rightarrow> FilterConfig \<Rightarrow> Artist list" where
  "filteredArtists artists deferredFilters = filter (keeps deferredFilters) artists"

text \<open>
  \<open>new Set(xs)\<close> read back with \<open>Array.from\<close>: the elements in the order of their first
  occurrence.
\<close>

definition new_Set :: "'a list \<Rightarrow> 'a list" where
  "new_Set xs = fold (\<lambda>x s. if x \<in> set s then s else s @ [x]) xs []"

text \<open>
  \<open>sort()\<close> without a comparator orders strings by their code units, a proper prefix
  first: the lexicographic order of \<^typ>\<open>string\<close>.
\<close>

definition availableLocations :: "Artist list \<Rightarrow> string list" where
  "availableLocations artists = sort (new_Set (map location artists))"

text \<open>
  \<open>Math.min\<close> and \<open>Math.max\<close> of a spread array; of no argument they are the
  infinities.
\<close>

datatype number = NegInfinity | Finite int | Infinity

fun Math_min :: "int list \<Rightarrow> number" where
  "Math_min [] = Infinity"
| "Math_min (x # xs) = Finite (fold min xs x)"

fun Math_max :: "int list \<Rightarrow> number" where
  "Math_max [] = NegInfinity"
| "Math_max (x # xs) = Finite (fold max xs x)"

record PriceStats =
  min_s :: number
  max_s :: number

text \<open>\<open>artists.flatMap(artist => [artist.priceRange.min, artist.priceRange.max])\<close>\<close>

definition prices_of :: "Artist list \<Rightarrow> int list" where
  "prices_of artists =
     concat (map (\<lambda>artist. [min_f (priceRange artist), max_f (priceRange artist)]) artists)"

definition priceStats :: "Artist list \<Rightarrow> PriceStats" where
  "priceStats artists =
     (if length artists = 0 then \<lparr>min_s = Finite 0, max_s = Finite 5000\<rparr>
      else \<lparr>min_s = Math_min (prices_of artists), max_s = Math_max (prices_of artists)\<rparr>)"

subsection \<open>The three predicates, as the specification words them\<close>

text \<open>
  The category passes when the configuration holds the sentinel \<open>all\<close> or a member of
  the record's categories. The location passes when the configured text is empty or
  occurs, both sides case-folded, as a contiguous part of the record's location. The
  price passes when the two intervals overlap.
\<close>

definition spec_category :: "FilterConfig \<Rightarrow> Artist \<Rightarrow> bool" where
  "spec_category cfg r = (category cfg = ''all'' \<or> category cfg \<in> set (categories r))"

definition spec_location :: "FilterConfig \<Rightarrow> Artist \<Rightarrow> bool" where
  "spec_location cfg r =
     (location_c cfg = [] \<or> sublist (toLowerCase (location_c cfg)) (toLowerCase (location r)))"

definition spec_price :: "FilterConfig \<Rightarrow> Artist \<Rightarrow> bool" where
  "spec_price cfg r =
     (min_f (priceRange r) \<le> snd (price cfg) \<and> max_f (priceRange r) \<ge> fst (price cfg))"

subsection \<open>Sample records\<close>

definition sample_singer :: Artist where
  "sample_singer =
     \<lparr>id_f = ''1'', name = ''Ava'', categories = [''singer''], location = ''New York'',
      priceRange = \<lparr>min_f = 500, max_f = 1000\<rparr>, bio = ''Jazz vocalist'',
      imageUrl = ''https://placehold.co/400x400.png'', languages = [''english'']\<rparr>"

definition sample_dj :: Artist where
  "sample_dj =
     \<lparr>id_f = ''2'', name = ''Ben'', categories = [''dj''], location = ''Boston'',
      priceRange = \<lparr>min_f = 2000, max_f = 3000\<rparr>, bio = ''House sets'',
      imageUrl = ''https://placehold.co/400x400.png'', languages = [''english'', ''spanish'']\<rparr>"

section \<open>Onboarding: the price interval of a submitted record\<close>

lemma parseFeeRange_bounds:
  "0 \<le> min_f (parseFeeRange fr) \<and> min_f (parseFeeRange fr) \<le> max_f (parseFeeRange fr)"
  by (simp add: parseFeeRange_def)

text \<open>
  Claim C10. Whatever the onboarding form holds, the record built by
  \<open>transformFormDataToArtist\<close> has a price interval with \<open>0 \<le> min \<le> max\<close>: each of the
  five fee-range tokens, and the default case taken by every other token, maps to such
  an interval.
\<close>

theorem transformFormDataToArtist_price_invariant:
  "0 \<le> min_f (priceRange (transformFormDataToArtist now createObjectURL formData)) \<and>
   min_f (priceRange (transformFormDataToArtist now createObjectURL formData))
     \<le> max_f (priceRange (transformFormDataToArtist now createObjectURL formData))"
  unfolding transformFormDataToArtist_def
  using parseFeeRange_bounds [of "feeRange formData"] by simp

section \<open>JavaScript's substring test\<close>

lemma startsWith_prefix: "startsWith s pat \<longleftrightarrow> prefix pat s"
  unfolding startsWith_def
proof
  assume "take (length pat) s = pat"
  then have "s = pat @ drop (length pat) s" by (metis append_take_drop_id)
  then show "prefix pat s" by (metis prefixI)
next
  assume "prefix pat s"
  then obtain t where "s = pat @ t" by (auto elim: prefixE)
  then show "take (length pat) s = pat" by simp
qed

lemma includes_str_sublist: "includes_str s pat \<longleftrightarrow> sublist pat s"
  by (induction s) (simp_all add: sublist_Cons_right startsWith_prefix)

section \<open>The filter engine\<close>

lemma keeps_spec:
  "keeps cfg r \<longleftrightarrow> spec_category cfg r \<and> spec_location cfg r \<and> spec_price cfg r"
  unfolding keeps_def spec_category_def spec_location_def spec_price_def
  by (auto simp: includes_str_sublist)

text \<open>
  Claim C3. For every record set and every filter configuration, the filter engine
  returns exactly the records that pass the category, the location and the price
  predicate of the specification, in their original relative order: the result is the
  record set filtered by the conjunction of the three.
\<close>

theorem filteredArtists_exact:
  "filteredArtists artists cfg =
     filter (\<lambda>r. spec_category cfg r \<and> spec_location cfg r \<and> spec_price cfg r) artists"
proof -
  have "keeps cfg = (\<lambda>r. spec_category cfg r \<and> spec_location cfg r \<and> spec_price cfg r)"
    by (rule ext) (rule keeps_spec)
  then show ?thesis unfolding filteredArtists_def by simp
qed

theorem filteredArtists_exact_witness:
  "filteredArtists [sample_singer, sample_dj]
      \<lparr>category = ''dj'', location_c = [], price = (0, 5000)\<rparr> = [sample_dj]"
  using filteredArtists_exact [of "[sample_singer, sample_dj]"
      "\<lparr>category = ''dj'', location_c = [], price = (0, 5000)\<rparr>"]
  by (simp add: spec_category_def spec_location_def spec_price_def sample_singer_def sample_dj_def)

text \<open>
  Claim C8. A record that passes the filter still passes it after the configuration's
  price interval is widened (a lower \<open>lo\<close>, a higher \<open>hi\<close>, or both) with the category
  and the location unchanged.
\<close>

theorem widening_keeps_record:
  assumes "r \<in> set (filteredArtists artists cfg)"
    and "lo' \<le> fst (price cfg)" and "snd (price cfg) \<le> hi'"
  shows "r \<in> set (filteredArtists artists (cfg\<lparr>price := (lo', hi')\<rparr>))"
  using assms unfolding filteredArtists_def keeps_def
  by (auto split: if_splits)

theorem widening_keeps_record_witness:
  "sample_dj \<in> set (filteredArtists [sample_singer, sample_dj]
                     \<lparr>category = ''all'', location_c = ''bos'', price = (2500, 2600)\<rparr>)
   \<and> (0::int) \<le> 2500 \<and> (2600::int) \<le> 5000
   \<and> sample_dj \<in> set (filteredArtists [sample_singer, sample_dj]
                     \<lparr>category = ''all'', location_c = ''bos'', price = (0, 5000)\<rparr>)"
proof -
  let ?cfg = "\<lparr>category = ''all'', location_c = ''bos'', price = (2500, 2600)\<rparr>"
  have h: "sample_dj \<in> set (filteredArtists [sample_singer, sample_dj] ?cfg)"
    by code_simp
  from widening_keeps_record [OF h, of 0 5000] h show ?thesis by simp
qed

text \<open>
  Claim C2, as stated: an inverted price interval (\<open>lo > hi\<close>) always gives the empty
  result. It fails: with \<open>[lo, hi] = [2600, 2400]\<close> the record priced \<open>2000 .. 3000\<close> has
  \<open>min \<le> hi\<close> and \<open>max \<ge> lo\<close>, and the filter keeps it.
\<close>

theorem inverted_interval_counterexample:
  "fst (price \<lparr>category = ''all'', location_c = [], price = (2600, 2400)\<rparr>)
     > snd (price \<lparr>category = ''all'', location_c = [], price = (2600, 2400)\<rparr>)
   \<and> filteredArtists [sample_singer, sample_dj]
        \<lparr>category = ''all'', location_c = [], price = (2600, 2400)\<rparr> = [sample_dj]"
  by (simp add: filteredArtists_def keeps_def sample_singer_def sample_dj_def)

text \<open>
  Claim C2, amended. Under an inverted price interval (\<open>lo > hi\<close>) every record of the
  result spans the gap: \<open>min \<le> hi < lo \<le> max\<close>. So the result is empty, whatever
  the category and location settings, when no record spans the gap, that is when
  every record has \<open>min > hi\<close> or \<open>max < lo\<close>.
\<close>

theorem inverted_interval_result:
  assumes "snd (price cfg) < fst (price cfg)"
  shows "(\<forall>r \<in> set (filteredArtists artists cfg).
            min_f (priceRange r) \<le> snd (price cfg) \<and> fst (price cfg) \<le> max_f (priceRange r)
            \<and> min_f (priceRange r) < max_f (priceRange r))
       \<and> ((\<forall>r \<in> set artists.
              snd (price cfg) < min_f (priceRange r) \<or> max_f (priceRange r) < fst (price cfg))
            \<longrightarrow> filteredArtists artists cfg = [])"
  using assms unfolding filteredArtists_def keeps_def
  by (auto simp: filter_empty_conv split: if_splits)

theorem inverted_interval_result_witness:
  "snd (price \<lparr>category = ''all'', location_c = [], price = (4000, 3500)\<rparr>)
     < fst (price \<lparr>category = ''all'', location_c = [], price = (4000, 3500)\<rparr>)
   \<and> filteredArtists [sample_singer, sample_dj]
        \<lparr>category = ''all'', location_c = [], price = (4000, 3500)\<rparr> = []"
proof -
  let ?cfg = "\<lparr>category = ''all'', location_c = [], price = (4000, 3500)\<rparr>"
  have h: "snd (price ?cfg) < fst (price ?cfg)" by simp
  have b: "\<forall>r \<in> set [sample_singer, sample_dj].
             snd (price ?cfg) < min_f (priceRange r) \<or> max_f (priceRange r) < fst (price ?cfg)"
    by (simp add: sample_singer_def sample_dj_def)
  from inverted_interval_result [OF h, of "[sample_singer, sample_dj]"] b h
  show ?thesis by blast
qed

section \<open>The query resolver\<close>

text \<open>
  Claim C4. The operation is chosen by the presence of a pattern in the text of the
  document, in this order: \<open>artist(\<close> gives the single-record fetch; otherwise
  \<open>artistsByCategory\<close> gives the category filter; otherwise \<open>artistsByLocation\<close> gives
  the location filter; otherwise the operation is the fetch of all records.
\<close>

theorem operation_precedence:
  "operation q =
     (if sublist ''artist('' q then ''artist''
      else if sublist ''artistsByCategory'' q then ''artistsByCategory''
      else if sublist ''artistsByLocation'' q then ''artistsByLocation''
      else ''artists'')"
  unfolding operation_def by (simp add: includes_str_sublist)

lemma operation_resolved: "resolvers artists (operation q) \<noteq> None"
  unfolding operation_def resolvers_def by simp

section \<open>The facets of the filter engine\<close>

lemma new_Set_fold_set:
  "set (fold (\<lambda>x s. if x \<in> set s then s else s @ [x]) xs acc) = set xs \<union> set acc"
  by (induction xs arbitrary: acc) auto

lemma new_Set_fold_distinct:
  "distinct acc \<Longrightarrow> distinct (fold (\<lambda>x s. if x \<in> set s then s else s @ [x]) xs acc)"
  by (induction xs arbitrary: acc) auto

lemma set_new_Set: "set (new_Set xs) = set xs"
  unfolding new_Set_def by (simp add: new_Set_fold_set)

lemma distinct_new_Set: "distinct (new_Set xs)"
  unfolding new_Set_def by (simp add: new_Set_fold_distinct)

text \<open>
  Claim C7. For every record set, the location facet is sorted in ascending
  lexicographic order, has no duplicates, and holds exactly the locations that occur
  among the records.
\<close>

theorem availableLocations_facet:
  "sorted (availableLocations artists) \<and> distinct (availableLocations artists)
   \<and> set (availableLocations artists) = location ` set artists"
  unfolding availableLocations_def
  by (simp add: set_new_Set distinct_new_Set)

lemma Math_min_Min: "xs \<noteq> [] \<Longrightarrow> Math_min xs = Finite (Min (set xs))"
  by (cases xs) (simp_all add: Min.set_eq_fold [symmetric])

lemma Math_max_Max: "xs \<noteq> [] \<Longrightarrow> Math_max xs = Finite (Max (set xs))"
  by (cases xs) (simp_all add: Max.set_eq_fold [symmetric])

lemma set_prices_of:
  "set (prices_of artists) =
     (\<lambda>a. min_f (priceRange a)) ` set artists \<union> (\<lambda>a. max_f (priceRange a)) ` set artists"
  unfolding prices_of_def by auto

lemma Min_prices:
  assumes ne: "artists \<noteq> []"
    and ord: "\<forall>a \<in> set artists. min_f (priceRange a) \<le> max_f (priceRange a)"
  shows "Min (set (prices_of artists)) = Min ((\<lambda>a. min_f (priceRange a)) ` set artists)"
proof (rule Min_eqI)
  show "finite (set (prices_of artists))" by simp
next
  fix y assume "y \<in> set (prices_of artists)"
  then obtain a where a: "a \<in> set artists"
    and y: "y = min_f (priceRange a) \<or> y = max_f (priceRange a)"
    by (auto simp: set_prices_of)
  have "Min ((\<lambda>a. min_f (priceRange a)) ` set artists) \<le> min_f (priceRange a)"
    using a by simp
  moreover have "min_f (priceRange a) \<le> max_f (priceRange a)" using a ord by blast
  ultimately show "Min ((\<lambda>a. min_f (priceRange a)) ` set artists) \<le> y"
    using y by auto
next
  have "Min ((\<lambda>a. min_f (priceRange a)) ` set artists) \<in> (\<lambda>a. min_f (priceRange a)) ` set artists"
    using ne by (intro Min_in) simp_all
  then show "Min ((\<lambda>a. min_f (priceRange a)) ` set artists) \<in> set (prices_of artists)"
    by (simp add: set_prices_of)
qed

lemma Max_prices:
  assumes ne: "artists \<noteq> []"
    and ord: "\<forall>a \<in> set artists. min_f (priceRange a) \<le> max_f (priceRange a)"
  shows "Max (set (prices_of artists)) = Max ((\<lambda>a. max_f (priceRange a)) ` set artists)"
proof (rule Max_eqI)
  show "finite (set (prices_of artists))" by simp
next
  fix y assume "y \<in> set (prices_of artists)"
  then obtain a where a: "a \<in> set artists"
    and y: "y = min_f (priceRange a) \<or> y = max_f (priceRange a)"
    by (auto simp: set_prices_of)
  have "max_f (priceRange a) \<le> Max ((\<lambda>a. max_f (priceRange a)) ` set artists)"
    using a by simp
  moreover have "min_f (priceRange a) \<le> max_f (priceRange a)" using a ord by blast
  ultimately show "y \<le> Max ((\<lambda>a. max_f (priceRange a)) ` set artists)"
    using y by auto
next
  have "Max ((\<lambda>a. max_f (priceRange a)) ` set artists) \<in> (\<lambda>a. max_f (priceRange a)) ` set artists"
    using ne by (intro Max_in) simp_all
  then show "Max ((\<lambda>a. max_f (priceRange a)) ` set artists) \<in> set (prices_of artists)"
    by (simp add: set_prices_of)
qed

lemma prices_of_nonempty: "artists \<noteq> [] \<Longrightarrow> prices_of artists \<noteq> []"
  unfolding prices_of_def by (cases artists) simp_all

text \<open>
  Claim C6. When every record has a price interval of non-negative integers with
  \<open>min \<le> max\<close>, the price-bounds facet is the least of the records' minimums and
  the greatest of their maximums; for the empty record set it is \<open>{0, 5000}\<close>.
\<close>

theorem priceStats_bounds:
  assumes "\<forall>a \<in> set artists. 0 \<le> min_f (priceRange a) \<and> min_f (priceRange a) \<le> max_f (priceRange a)"
  shows "priceStats artists =
     (if artists = [] then \<lparr>min_s = Finite 0, max_s = Finite 5000\<rparr>
      else \<lparr>min_s = Finite (Min ((\<lambda>a. min_f (priceRange a)) ` set artists)),
            max_s = Finite (Max ((\<lambda>a. max_f (priceRange a)) ` set artists))\<rparr>)"
proof (cases "artists = []")
  case True
  then show ?thesis by (simp add: priceStats_def)
next
  case False
  from assms have ord: "\<forall>a \<in> set artists. min_f (priceRange a) \<le> max_f (priceRange a)"
    by blast
  have "priceStats artists =
      \<lparr>min_s = Math_min (prices_of artists), max_s = Math_max (prices_of artists)\<rparr>"
    using False by (simp add: priceStats_def)
  also have "Math_min (prices_of artists) = Finite (Min ((\<lambda>a. min_f (priceRange a)) ` set artists))"
    using False by (simp add: Math_min_Min prices_of_nonempty Min_prices [OF False ord])
  also have "Math_max (prices_of artists) = Finite (Max ((\<lambda>a. max_f (priceRange a)) ` set artists))"
    using False by (simp add: Math_max_Max prices_of_nonempty Max_prices [OF False ord])
  finally show ?thesis using False by simp
qed

theorem priceStats_bounds_witness:
  "priceStats [sample_singer, sample_dj] = \<lparr>min_s = Finite 500, max_s = Finite 3000\<rparr>"
proof -
  have h: "\<forall>a \<in> set [sample_singer, sample_dj].
      0 \<le> min_f (priceRange a) \<and> min_f (priceRange a) \<le> max_f (priceRange a)"
    by (simp add: sample_singer_def sample_dj_def)
  from priceStats_bounds [OF h] show ?thesis
    by (simp add: sample_singer_def sample_dj_def)
qed

section \<open>The field projection\<close>

lemma map_of_set_own: "map_of (set_own obj k v) = (map_of obj)(k \<mapsto> v)"
  by (induction obj k v rule: set_own.induct) auto

lemma map_of_set_property:
  "map_of (set_property obj k v) =
     (if k = ''__proto__'' then map_of obj else (map_of obj)(k \<mapsto> v))"
  by (simp add: set_property_def map_of_set_own)

lemma map_of_project_fold:
  "map_of (fold (\<lambda>field filtered.
             if has_property obj field
             then set_property filtered field (get_property obj field)
             else filtered) fs acc) k =
     (if k \<in> set fs \<and> has_property obj k \<and> k \<noteq> ''__proto__''
      then Some (get_property obj k) else map_of acc k)"
proof (induction fs arbitrary: acc)
  case Nil
  then show ?case by simp
next
  case (Cons f fs)
  show ?case
    by (auto simp: Cons.IH map_of_set_property)
qed

lemma map_of_project:
  "map_of (project fs obj) k =
     (if k \<in> set fs \<and> has_property obj k \<and> k \<noteq> ''__proto__''
      then Some (get_property obj k) else None)"
  unfolding project_def by (simp add: map_of_project_fold)

lemma own_key_iff: "k \<in> set (map fst obj) \<longleftrightarrow> map_of obj k \<noteq> None"
  by (simp add: map_of_eq_None_iff)

lemma proto_inherited: "''__proto__'' \<in> set object_prototype_keys"
  by (simp add: object_prototype_keys_def)

lemma has_property_project:
  assumes "f \<in> set fs"
  shows "has_property (project fs obj) f \<longleftrightarrow> has_property obj f"
proof (cases "f = ''__proto__''")
  case True
  then show ?thesis by (simp add: has_property_def proto_inherited)
next
  case False
  show ?thesis
  proof
    assume "has_property (project fs obj) f"
    then show "has_property obj f"
      unfolding has_property_def [of "project fs obj"] own_key_iff
      by (auto simp: map_of_project has_property_def split: if_splits)
  next
    assume "has_property obj f"
    with assms False have "map_of (project fs obj) f \<noteq> None"
      by (simp add: map_of_project)
    then show "has_property (project fs obj) f"
      unfolding has_property_def [of "project fs obj"] own_key_iff by simp
  qed
qed

lemma get_property_project:
  assumes "f \<in> set fs" and "has_property obj f" and "f \<noteq> ''__proto__''"
  shows "get_property (project fs obj) f = get_property obj f"
  using assms by (simp add: get_property_def [of "project fs obj"] map_of_project)

lemma project_step_same:
  assumes "f \<in> set fs"
  shows "(if has_property (project fs obj) f
          then set_property filtered f (get_property (project fs obj) f) else filtered)
       = (if has_property obj f
          then set_property filtered f (get_property obj f) else filtered)"
proof (cases "f = ''__proto__''")
  case True
  then show ?thesis by (simp add: set_property_def)
next
  case False
  with assms show ?thesis
    by (simp add: has_property_project get_property_project)
qed

lemma project_idempotent: "project fs (project fs obj) = project fs obj"
proof -
  let ?step = "\<lambda>src field filtered.
                 if has_property src field
                 then set_property filtered field (get_property src field)
                 else filtered"
  have "project fs (project fs obj) = fold (?step (project fs obj)) fs []"
    by (rule project_def)
  also have "\<dots> = fold (?step obj) fs []"
  proof (rule fold_cong)
    fix f assume "f \<in> set fs"
    then show "?step (project fs obj) f = ?step obj f"
      by (intro ext) (rule project_step_same)
  qed simp_all
  also have "\<dots> = project fs obj"
    by (rule project_def [symmetric])
  finally show ?thesis .
qed

text \<open>
  Claim C9. The field projection is idempotent: projecting a record, then projecting
  the result again with the same field list, gives the same object as projecting once
  (the same properties with the same values, in the same order).
\<close>

theorem projection_idempotent:
  "project field_list (project field_list (artist_obj a)) = project field_list (artist_obj a)"
  by (rule project_idempotent)

section \<open>Exceptions stay inside the resolver\<close>

lemma toLowerCase_any_thrown:
  "toLowerCase_any v = Inl e \<Longrightarrow> \<exists>m. e = TypeError m"
  by (cases v) auto

lemma filter_try_thrown:
  assumes "filter_try p xs = Inl e" and "\<And>x e'. p x = Inl e' \<Longrightarrow> \<exists>m. e' = TypeError m"
  shows "\<exists>m. e = TypeError m"
  using assms
  by (induction xs arbitrary: e) (auto split: sum.splits)

lemma resolver_thrown:
  assumes "resolvers artists key = Some resolver" and "resolver args = Inl e"
  shows "\<exists>m. e = TypeError m"
proof -
  from assms have k: "key = ''artistsByLocation''"
    by (auto simp: resolvers_def split: if_splits)
  let ?p = "\<lambda>a. case toLowerCase_any (arg args ''location'') of
                   Inl e \<Rightarrow> Inl e
                 | Inr l \<Rightarrow> Inr (includes_str (toLowerCase (location a)) l)"
  from assms k have "filter_try ?p artists = Inl e"
    by (auto simp: resolvers_def split: sum.splits)
  moreover have "\<And>x e'. ?p x = Inl e' \<Longrightarrow> \<exists>m. e' = TypeError m"
    by (auto split: sum.splits dest: toLowerCase_any_thrown)
  ultimately show ?thesis by (rule filter_try_thrown)
qed

lemma graphqlRequest_try_thrown:
  assumes "graphqlRequest_try artists q = Inl e"
  shows "\<exists>m. e = Error m \<or> e = TypeError m"
  using assms unfolding graphqlRequest_try_def Let_def
  by (auto split: option.splits sum.splits resolved.splits dest: resolver_thrown)

text \<open>
  Claim C5. \<open>graphqlRequest\<close> returns a response on every request. Whenever parsing,
  classification, resolution or projection throws, what is thrown is an \<open>Error\<close>
  with a message, and the response has \<open>data\<close> null and an \<open>errors\<close> list of exactly
  one entry, which carries that message.
\<close>

theorem graphqlRequest_catches:
  assumes "graphqlRequest_try artists q = Inl e"
  shows "\<exists>m. (e = Error m \<or> e = TypeError m)
            \<and> graphqlRequest artists q = \<lparr>data = DataNull, errors = Some [\<lparr>message = m\<rparr>]\<rparr>"
proof -
  from graphqlRequest_try_thrown [OF assms] obtain m where m: "e = Error m \<or> e = TypeError m"
    by blast
  then have "catch_message e = m" by auto
  with assms have "graphqlRequest artists q = \<lparr>data = DataNull, errors = Some [\<lparr>message = m\<rparr>]\<rparr>"
    by (simp add: graphqlRequest_def)
  with m show ?thesis by blast
qed

lemma try_location_undefined:
  "graphqlRequest_try [sample_singer] \<lparr>query = getArtistsByLocation, variables = None\<rparr>
     = Inl (TypeError ''Cannot read properties of undefined (reading 'toLowerCase')'')"
  by code_simp

theorem graphqlRequest_catches_witness:
  "graphqlRequest_try [sample_singer] \<lparr>query = getArtistsByLocation, variables = None\<rparr>
     = Inl (TypeError ''Cannot read properties of undefined (reading 'toLowerCase')'')
   \<and> graphqlRequest [sample_singer] \<lparr>query = getArtistsByLocation, variables = None\<rparr>
     = \<lparr>data = DataNull,
        errors = Some [\<lparr>message = ''Cannot read properties of undefined (reading 'toLowerCase')''\<rparr>]\<rparr>"
  using graphqlRequest_catches [OF try_location_undefined] try_location_undefined
  by auto

section \<open>The fields extracted from the predefined documents\<close>

text \<open>
  Claim C1 says that the extracted field list of each predefined document contains
  every field of its selection, \<open>bio\<close>, \<open>imageUrl\<close> and \<open>languages\<close> for the fetch-all
  document. \<open>parseQuery\<close> stops at the first closing brace, the one that ends the
  nested \<open>priceRange\<close> selection: on the fetch-all document it returns the eight names
  below, without \<open>bio\<close>, \<open>imageUrl\<close> and \<open>languages\<close>.
\<close>

theorem parseQuery_getAllArtists:
  "parseQuery getAllArtists =
     [''artists'', ''id'', ''name'', ''categories'', ''location'', ''priceRange'', ''min'', ''max'']"
  by code_simp

lemma parseQuery_getArtistById:
  "parseQuery getArtistById =
     [''artist(id: $id)'', ''id'', ''name'', ''categories'', ''location'', ''priceRange'',
      ''min'', ''max'']"
  by code_simp

lemma parseQuery_getArtistsByCategory:
  "parseQuery getArtistsByCategory =
     [''artistsByCategory(category: $category)'', ''id'', ''name'', ''categories'',
      ''location'', ''priceRange'', ''min'', ''max'']"
  by code_simp

lemma parseQuery_getArtistsByLocation:
  "parseQuery getArtistsByLocation =
     [''artistsByLocation(location: $location)'', ''id'', ''name'', ''categories'',
      ''location'', ''priceRange'', ''min'', ''max'']"
  by code_simp

end
